theory Spec2Isabelle
  imports Main "HOL-Library.Word"
begin

unbundle bit_operations_syntax

section \<open>Buffers and strings\<close>

text \<open>
  A \<open>Buffer\<close> (a \<open>Uint8Array\<close>) is a list of bytes. JavaScript strings are lists of
  characters; the strings the wallet code handles (derivation paths, hexadecimal text,
  recovery phrases) are ASCII.
\<close>

type_synonym byte = "8 word"
type_synonym bytes = "byte list"

text \<open>The value of a character as a digit of a radix up to 16 (either case), if it is one.\<close>

definition digitValue :: "char \<Rightarrow> nat option" where
  "digitValue c =
     (let n = (of_char c :: nat) in
      if 48 \<le> n \<and> n \<le> 57 then Some (n - 48)
      else if 97 \<le> n \<and> n \<le> 102 then Some (n - 87)
      else if 65 \<le> n \<and> n \<le> 70 then Some (n - 55)
      else None)"

definition hexDigits :: string where
  "hexDigits = ''0123456789abcdef''"

text \<open>\<^verbatim>\<open>buffer.toString("hex")\<close>: two lower-case hexadecimal digits per byte.\<close>

definition toStringHex :: "bytes \<Rightarrow> string" where
  "toStringHex buf = concat (map (\<lambda>b. [hexDigits ! (unat b div 16), hexDigits ! (unat b mod 16)]) buf)"

text \<open>
  \<^verbatim>\<open>Buffer.from(text, 'hex')\<close>: one byte per pair of hexadecimal digits, a trailing
  single digit dropped. The only caller passes the hexadecimal text of a buffer; on any
  other text the decoding stops at the first pair that is not two hexadecimal digits.
\<close>

fun bufferFromHex :: "string \<Rightarrow> bytes" where
  "bufferFromHex (a # b # rest) =
     (case digitValue a of
        None \<Rightarrow> []
      | Some h \<Rightarrow>
          (case digitValue b of
             None \<Rightarrow> []
           | Some l \<Rightarrow>
               (if h < 16 \<and> l < 16 then of_nat (16 * h + l) # bufferFromHex rest else [])))"
| "bufferFromHex [a] = []"
| "bufferFromHex [] = []"

text \<open>\<^verbatim>\<open>text.split(sep)\<close> for a one-character separator: never the empty list.\<close>

fun splitOn :: "char \<Rightarrow> string \<Rightarrow> string list" where
  "splitOn sep [] = [[]]"
| "splitOn sep (x # xs) =
     (if x = sep then [] # splitOn sep xs
      else (case splitOn sep xs of
              [] \<Rightarrow> [[x]]
            | s # rest \<Rightarrow> (x # s) # rest))"

text \<open>\<^verbatim>\<open>segment.endsWith("'")\<close>.\<close>

definition endsWithApostrophe :: "string \<Rightarrow> bool" where
  "endsWithApostrophe segment = (segment \<noteq> [] \<and> last segment = CHR 0x27)"

text \<open>White space as \<^verbatim>\<open>parseInt\<close> and \<^verbatim>\<open>trim\<close> skip it (the ASCII part).\<close>

definition isWhiteSpace :: "char \<Rightarrow> bool" where
  "isWhiteSpace c = ((of_char c :: nat) \<in> {9, 10, 11, 12, 13, 32})"

definition isDigitIn :: "nat \<Rightarrow> char \<Rightarrow> bool" where
  "isDigitIn R c = (case digitValue c of None \<Rightarrow> False | Some v \<Rightarrow> v < R)"

definition digitsValue :: "nat \<Rightarrow> string \<Rightarrow> int" where
  "digitsValue R Z =
     foldl (\<lambda>acc c. int R * acc + (case digitValue c of None \<Rightarrow> 0 | Some v \<Rightarrow> int v)) 0 Z"

text \<open>
  \<^verbatim>\<open>parseInt(text)\<close> with no radix: leading white space, an optional sign, an optional
  \<^verbatim>\<open>0x\<close> prefix, then the longest run of digits of the radix; \<open>None\<close> is \<^verbatim>\<open>NaN\<close>.
\<close>

definition parseInt :: "string \<Rightarrow> int option" where
  "parseInt str =
     (let S = dropWhile isWhiteSpace str;
          sign = (if S \<noteq> [] \<and> hd S = CHR ''-'' then - 1 else 1 :: int);
          S1 = (if S \<noteq> [] \<and> (hd S = CHR ''+'' \<or> hd S = CHR ''-'') then tl S else S);
          hex = (take 2 S1 = ''0x'' \<or> take 2 S1 = ''0X'');
          R = (if hex then 16 else 10);
          S2 = (if hex then drop 2 S1 else S1);
          Z = takeWhile (isDigitIn R) S2
      in if Z = [] then None else Some (sign * digitsValue R Z))"

text \<open>A non-negative integer in a template literal: decimal, no leading zero.\<close>

fun showNat :: "nat \<Rightarrow> string" where
  "showNat n =
     (if n < 10 then [char_of (48 + n)]
      else showNat (n div 10) @ [char_of (48 + n mod 10)])"

declare showNat.simps [simp del]

section \<open>The path deriver of the wallet generator\<close>

datatype error = RangeError

text \<open>
  \<^verbatim>\<open>indexBuffer.writeUInt32BE(v, 0)\<close> on a fresh buffer of four bytes. A number above
  \<^verbatim>\<open>0xffffffff\<close> or below zero is refused with a \<^verbatim>\<open>RangeError\<close>; \<^verbatim>\<open>NaN\<close> passes
  both comparisons and is written as zero.
\<close>

definition writeUInt32BE :: "int option \<Rightarrow> error + bytes" where
  "writeUInt32BE num =
     (case num of
        None \<Rightarrow> Inr [0, 0, 0, 0]
      | Some v \<Rightarrow>
          if v > 0xffffffff \<or> v < 0 then Inl RangeError
          else Inr [of_int (v div 2 ^ 24), of_int (v div 2 ^ 16), of_int (v div 2 ^ 8), of_int v])"

text \<open>
  The body of the loop of \<^verbatim>\<open>derivePath\<close>: a segment that ends with an apostrophe is
  hardened and replaces the current seed by the first 32 bytes of the hash; any other
  segment leaves the current seed as it is. The hash function (\<^verbatim>\<open>nacl.hash\<close> in the source) is a parameter.
\<close>

definition deriveSegment :: "(bytes \<Rightarrow> bytes) \<Rightarrow> bytes \<Rightarrow> string \<Rightarrow> error + bytes" where
  "deriveSegment hash currentSeed segment =
     (if endsWithApostrophe segment then
        (case writeUInt32BE (map_option (\<lambda>n. n + 0x80000000) (parseInt (butlast segment))) of
           Inl e \<Rightarrow> Inl e
         | Inr indexBuffer \<Rightarrow> Inr (take 32 (hash ([0] @ currentSeed @ indexBuffer))))
      else Inr currentSeed)"

fun deriveSegments :: "(bytes \<Rightarrow> bytes) \<Rightarrow> bytes \<Rightarrow> string list \<Rightarrow> error + bytes" where
  "deriveSegments hash currentSeed [] = Inr currentSeed"
| "deriveSegments hash currentSeed (segment # rest) =
     (case deriveSegment hash currentSeed segment of
        Inl e \<Rightarrow> Inl e
      | Inr next \<Rightarrow> deriveSegments hash next rest)"

text \<open>
  \<^verbatim>\<open>derivePath(path, seed)\<close>: the seed arrives as hexadecimal text; the loop starts at
  the second segment. The result is the \<^verbatim>\<open>key\<close> of the object returned.
\<close>

definition derivePath :: "(bytes \<Rightarrow> bytes) \<Rightarrow> string \<Rightarrow> string \<Rightarrow> error + bytes" where
  "derivePath hash path seed =
     deriveSegments hash (bufferFromHex seed) (tl (splitOn CHR ''/'' path))"

section \<open>The wallet generator component\<close>

record wallet =
  publicKey :: string
  privateKey :: string
  mnemonic :: string
  path :: string

text \<open>
  The functions the component imports from its libraries are parameters. Where a
  library call can throw inside \<^verbatim>\<open>generateWalletFromMnemonic\<close>, \<open>None\<close> stands for
  the exception.
  \<^item> \<open>validateMnemonic\<close>, \<open>mnemonicToSeedSync\<close>: \<^verbatim>\<open>bip39\<close>;
  \<^item> \<open>nacl_hash\<close>: \<^verbatim>\<open>nacl.hash\<close>;
  \<^item> \<open>nacl_sign_keyPair_fromSeed\<close>: the \<^verbatim>\<open>secretKey\<close> of
    \<^verbatim>\<open>nacl.sign.keyPair.fromSeed(seed)\<close>;
  \<^item> \<open>Keypair_fromSecretKey\<close>: \<^verbatim>\<open>Keypair.fromSecretKey(secretKey).publicKey.toBase58()\<close>;
  \<^item> \<open>bs58_encode\<close>: \<^verbatim>\<open>bs58.encode\<close>;
  \<^item> \<open>ethers_Wallet\<close>: the \<^verbatim>\<open>address\<close> of \<^verbatim>\<open>new ethers.Wallet(privateKey)\<close>.
\<close>

record libs =
  validateMnemonic :: "string \<Rightarrow> bool"
  mnemonicToSeedSync :: "string \<Rightarrow> bytes"
  nacl_hash :: "bytes \<Rightarrow> bytes"
  nacl_sign_keyPair_fromSeed :: "bytes \<Rightarrow> bytes option"
  Keypair_fromSecretKey :: "bytes \<Rightarrow> string option"
  bs58_encode :: "bytes \<Rightarrow> string"
  ethers_Wallet :: "string \<Rightarrow> string option"

datatype toast = ToastSuccess string | ToastError string | ToastInfo string | ToastWarning string

text \<open>
  An item of \<^verbatim>\<open>localStorage\<close>: absent, a text that \<^verbatim>\<open>JSON.parse\<close> rejects, or the
  text \<^verbatim>\<open>JSON.stringify\<close> gives for an array. The three keys the component uses are
  \<^verbatim>\<open>"wallets"\<close>, \<^verbatim>\<open>"mnemonics"\<close> and \<^verbatim>\<open>"paths"\<close>.
\<close>

datatype 'a item = Absent | Unparsable | Json 'a

record storage =
  item_wallets :: "wallet list item"
  item_mnemonics :: "string list item"
  item_paths :: "string list item"

text \<open>A stored text is truthy (every text the component writes is non-empty).\<close>

fun truthy :: "'a item \<Rightarrow> bool" where
  "truthy Absent = False"
| "truthy Unparsable = True"
| "truthy (Json v) = True"

text \<open>\<^verbatim>\<open>JSON.parse\<close> of a stored text; \<open>None\<close> when it throws.\<close>

fun JSON_parse :: "'a item \<Rightarrow> 'a option" where
  "JSON_parse (Json v) = Some v"
| "JSON_parse Unparsable = None"
| "JSON_parse Absent = None"

text \<open>
  The state hooks of the component, and the storage it writes to. A handler reads the
  values of the current render and each setter is called at most once in it, so a
  handler is a function from the state before to the notifications it sends and the state
  after. Writing to the store is taken to succeed.
\<close>

record state =
  mnemonicWords :: "string list"
  pathTypes :: "string list"
  wallets :: "wallet list"
  showMnemonic :: bool
  mnemonicInput :: string
  visiblePrivateKeys :: "bool list"
  gridView :: bool
  localStorage :: storage

definition initialState :: "storage \<Rightarrow> state" where
  "initialState stored =
     \<lparr>mnemonicWords = [], pathTypes = [], wallets = [], showMnemonic = False,
      mnemonicInput = [], visiblePrivateKeys = [], gridView = False, localStorage = stored\<rparr>"

text \<open>The effect that runs when the component is mounted: load the saved wallets.\<close>

definition loadSavedWallets :: "state \<Rightarrow> toast list \<times> state" where
  "loadSavedWallets s =
     (let storedWallets = item_wallets (localStorage s);
          storedMnemonic = item_mnemonics (localStorage s);
          storedPathTypes = item_paths (localStorage s)
      in if truthy storedWallets \<and> truthy storedMnemonic \<and> truthy storedPathTypes then
           (case JSON_parse storedMnemonic of
              None \<Rightarrow> ([ToastError ''Failed to load saved wallets''], s)
            | Some ws \<Rightarrow>
                (case JSON_parse storedWallets of
                   None \<Rightarrow>
                     ([ToastError ''Failed to load saved wallets''], s\<lparr>mnemonicWords := ws\<rparr>)
                 | Some saved \<Rightarrow>
                     (case JSON_parse storedPathTypes of
                        None \<Rightarrow>
                          ([ToastError ''Failed to load saved wallets''],
                           s\<lparr>mnemonicWords := ws, wallets := saved\<rparr>)
                      | Some pts \<Rightarrow>
                          ([], s\<lparr>mnemonicWords := ws, wallets := saved, pathTypes := pts,
                                visiblePrivateKeys := map (\<lambda>_. False) saved\<rparr>))))
         else ([], s))"

text \<open>\<^verbatim>\<open>pathTypes[0]\<close>: \<open>None\<close> is \<^verbatim>\<open>undefined\<close>, which a template literal prints as such.\<close>

definition first :: "'a list \<Rightarrow> 'a option" where
  "first xs = (case xs of [] \<Rightarrow> None | x # _ \<Rightarrow> Some x)"

definition templateText :: "string option \<Rightarrow> string" where
  "templateText v = (case v of None \<Rightarrow> ''undefined'' | Some text \<Rightarrow> text)"

definition generateWalletFromMnemonic ::
  "libs \<Rightarrow> string option \<Rightarrow> string \<Rightarrow> nat \<Rightarrow> toast list \<times> wallet option" where
  "generateWalletFromMnemonic L pathType phrase accountIndex =
     (let caught = ([ToastError ''Failed to generate wallet. Check console for details.''], None);
          seedBuffer = mnemonicToSeedSync L phrase;
          derivationPath =
            ''m/44'/'' @ templateText pathType @ [CHR 0x27] @ ''/0'/'' @ showNat accountIndex @ [CHR 0x27]
      in case derivePath (nacl_hash L) derivationPath (toStringHex seedBuffer) of
           Inl e \<Rightarrow> caught
         | Inr derivedSeed \<Rightarrow>
             if pathType = Some ''501'' then
               (case nacl_sign_keyPair_fromSeed L derivedSeed of
                  None \<Rightarrow> caught
                | Some secretKey \<Rightarrow>
                    (case Keypair_fromSecretKey L secretKey of
                       None \<Rightarrow> caught
                     | Some publicKeyEncoded \<Rightarrow>
                         ([], Some \<lparr>publicKey = publicKeyEncoded,
                                    privateKey = bs58_encode L secretKey,
                                    mnemonic = phrase, path = derivationPath\<rparr>)))
             else if pathType = Some ''60'' then
               (let privateKeyEncoded = ''0x'' @ toStringHex derivedSeed
                in case ethers_Wallet L privateKeyEncoded of
                     None \<Rightarrow> caught
                   | Some address \<Rightarrow>
                       ([], Some \<lparr>publicKey = address, privateKey = privateKeyEncoded,
                                  mnemonic = phrase, path = derivationPath\<rparr>))
             else ([ToastError ''Unsupported blockchain type''], None))"

text \<open>\<^verbatim>\<open>xs.filter((_, i) => i !== index)\<close>.\<close>

definition filterIndex :: "nat \<Rightarrow> 'a list \<Rightarrow> 'a list" where
  "filterIndex index xs = map snd (filter (\<lambda>(i, x). i \<noteq> index) (enumerate 0 xs))"

definition handleDeleteWallet :: "nat \<Rightarrow> state \<Rightarrow> toast list \<times> state" where
  "handleDeleteWallet index s =
     (let updatedWallets = filterIndex index (wallets s);
          updatedPathTypes = filterIndex index (pathTypes s)
      in ([ToastSuccess ''Wallet deleted''],
          s\<lparr>wallets := updatedWallets, pathTypes := updatedPathTypes,
            localStorage := (localStorage s)\<lparr>item_wallets := Json updatedWallets,
                                               item_paths := Json updatedPathTypes\<rparr>,
            visiblePrivateKeys := filterIndex index (visiblePrivateKeys s)\<rparr>))"

definition handleClearWallets :: "state \<Rightarrow> toast list \<times> state" where
  "handleClearWallets s =
     ([ToastInfo ''All wallets cleared''],
      s\<lparr>localStorage := (localStorage s)\<lparr>item_wallets := Absent, item_mnemonics := Absent,
                                          item_paths := Absent\<rparr>,
        wallets := [], mnemonicWords := [], pathTypes := [], visiblePrivateKeys := []\<rparr>)"

definition togglePrivateKeyVisibility :: "nat \<Rightarrow> state \<Rightarrow> state" where
  "togglePrivateKeyVisibility index s =
     s\<lparr>visiblePrivateKeys :=
         map (\<lambda>(i, visible). if i = index then \<not> visible else visible)
           (enumerate 0 (visiblePrivateKeys s))\<rparr>"

text \<open>\<^verbatim>\<open>text.trim()\<close> and \<^verbatim>\<open>words.join(" ")\<close>.\<close>

definition trim :: "string \<Rightarrow> string" where
  "trim text = rev (dropWhile isWhiteSpace (rev (dropWhile isWhiteSpace text)))"

fun join :: "string list \<Rightarrow> string" where
  "join [] = []"
| "join [w] = w"
| "join (w # ws) = w @ '' '' @ join ws"

text \<open>
  \<^verbatim>\<open>handleGenerateWallet\<close>. The argument \<open>generated\<close> is the phrase
  \<^verbatim>\<open>generateMnemonic()\<close> returns if it is called.
\<close>

definition handleGenerateWallet :: "libs \<Rightarrow> string \<Rightarrow> state \<Rightarrow> toast list \<times> state" where
  "handleGenerateWallet L generated s =
     (let typed = trim (mnemonicInput s)
      in if typed \<noteq> [] \<and> \<not> validateMnemonic L typed then
           ([ToastError ''Invalid recovery phrase''], s)
         else
           (let phrase = (if typed \<noteq> [] then typed else generated);
                ws = splitOn CHR '' '' phrase;
                s1 = s\<lparr>mnemonicWords := ws\<rparr>
            in case generateWalletFromMnemonic L (first (pathTypes s)) phrase (length (wallets s)) of
                 (toasts, None) \<Rightarrow> (toasts, s1)
               | (toasts, Some w) \<Rightarrow>
                   (let updatedWallets = wallets s @ [w]
                    in (toasts @ [ToastSuccess ''Wallet created successfully''],
                        s1\<lparr>wallets := updatedWallets,
                           localStorage := (localStorage s)\<lparr>item_wallets := Json updatedWallets,
                                                             item_mnemonics := Json ws,
                                                             item_paths := Json (pathTypes s)\<rparr>,
                           visiblePrivateKeys := visiblePrivateKeys s @ [False]\<rparr>))))"

definition handleAddWallet :: "libs \<Rightarrow> state \<Rightarrow> toast list \<times> state" where
  "handleAddWallet L s =
     (if mnemonicWords s = [] then
        ([ToastWarning ''No mnemonic found. Generate a wallet first''], s)
      else
        (case generateWalletFromMnemonic L (first (pathTypes s)) (join (mnemonicWords s))
                (length (wallets s)) of
           (toasts, None) \<Rightarrow> (toasts, s)
         | (toasts, Some w) \<Rightarrow>
             (let updatedWallets = wallets s @ [w]
              in (toasts @ [ToastSuccess ''Additional wallet created''],
                  s\<lparr>wallets := updatedWallets,
                    localStorage := (localStorage s)\<lparr>item_wallets := Json updatedWallets\<rparr>,
                    visiblePrivateKeys := visiblePrivateKeys s @ [False]\<rparr>))))"

text \<open>The input field of the recovery phrase.\<close>

definition setMnemonicInput :: "string \<Rightarrow> state \<Rightarrow> state" where
  "setMnemonicInput text s = s\<lparr>mnemonicInput := text\<rparr>"

text \<open>The two buttons that choose the blockchain.\<close>

definition choosePathType :: "string \<Rightarrow> state \<Rightarrow> state" where
  "choosePathType code s = s\<lparr>pathTypes := [code]\<rparr>"

section \<open>Notions the properties are stated with\<close>

text \<open>
  The simplified derivation as the specification words it: for each index of the path,
  hash the byte \<open>0x00\<close>, the current seed and the four bytes (big-endian) of the
  index with the hardened bit \<open>0x80000000\<close> set, and keep the first 32 bytes.
\<close>

definition hardenedIndexBytes :: "nat \<Rightarrow> bytes" where
  "hardenedIndexBytes i =
     (let w = (of_nat i :: 32 word) OR 0x80000000
      in [ucast (drop_bit 24 w), ucast (drop_bit 16 w), ucast (drop_bit 8 w), ucast w])"

definition simplifiedStep :: "(bytes \<Rightarrow> bytes) \<Rightarrow> bytes \<Rightarrow> nat \<Rightarrow> bytes" where
  "simplifiedStep hash512 currentSeed i =
     take 32 (hash512 (0 # currentSeed @ hardenedIndexBytes i))"

definition simplifiedDerivation :: "(bytes \<Rightarrow> bytes) \<Rightarrow> bytes \<Rightarrow> nat list \<Rightarrow> bytes" where
  "simplifiedDerivation hash512 seed indices = foldl (simplifiedStep hash512) seed indices"

text \<open>The all-hardened path \<^verbatim>\<open>m/44'/c'/0'/a'\<close> of a coin type and an account index.\<close>

definition hardenedPath :: "nat \<Rightarrow> nat \<Rightarrow> string" where
  "hardenedPath c a = ''m/44'/'' @ showNat c @ [CHR 0x27] @ ''/0'/'' @ showNat a @ [CHR 0x27]"

definition isDecimalDigit :: "char \<Rightarrow> bool" where
  "isDecimalDigit c = (48 \<le> (of_char c :: nat) \<and> (of_char c :: nat) \<le> 57)"

text \<open>
  The account index embedded in the path of a wallet: the number \<^verbatim>\<open>derivePath\<close> reads
  from the fifth segment of the path, which must be hardened.
\<close>

definition accountIndex :: "wallet \<Rightarrow> int option" where
  "accountIndex w =
     (let segments = splitOn CHR ''/'' (path w)
      in if length segments = 5 \<and> endsWithApostrophe (segments ! 4)
         then parseInt (butlast (segments ! 4)) else None)"

text \<open>No wallet has been deleted so far: the wallet at position \<open>k\<close> carries index \<open>k\<close>.\<close>

definition indexedByPosition :: "state \<Rightarrow> bool" where
  "indexedByPosition s =
     (map accountIndex (wallets s) = map (\<lambda>k. Some (int k)) [0..<length (wallets s)])"

text \<open>The invariant of the collection: one visibility flag per wallet.\<close>

definition flagsMatch :: "state \<Rightarrow> bool" where
  "flagsMatch s = (length (visiblePrivateKeys s) = length (wallets s))"

text \<open>A hardened segment whose number does not fit the four bytes once the hardened bit is added.\<close>

definition outOfRange :: "string \<Rightarrow> bool" where
  "outOfRange segment =
     (endsWithApostrophe segment \<and>
      (case parseInt (butlast segment) of
         None \<Rightarrow> False
       | Some v \<Rightarrow> v + 0x80000000 > 0xffffffff \<or> v + 0x80000000 < 0))"

text \<open>
  Stand-ins for the library functions, to run the component on explicit inputs. Which
  wallets a handler creates, their paths, and what it stores do not depend on them
  beyond whether a call succeeds.
\<close>

definition sampleLibs :: libs where
  "sampleLibs =
     \<lparr>validateMnemonic = (\<lambda>phrase. length (splitOn CHR '' '' phrase) = 12),
      mnemonicToSeedSync = (\<lambda>phrase. replicate 64 (of_nat (length phrase))),
      nacl_hash = (\<lambda>d. take 64 (rev d @ replicate 64 0)),
      nacl_sign_keyPair_fromSeed = (\<lambda>seed. if length seed = 32 then Some (seed @ rev seed) else None),
      Keypair_fromSecretKey = (\<lambda>secretKey. if length secretKey = 64 then Some (toStringHex (drop 32 secretKey)) else None),
      bs58_encode = toStringHex,
      ethers_Wallet = (\<lambda>privateKeyEncoded. if length privateKeyEncoded = 66 then Some (take 42 privateKeyEncoded) else None)\<rparr>"

definition samplePhrase :: string where
  "samplePhrase = ''abandon abandon abandon abandon abandon abandon abandon abandon abandon abandon abandon about''"

definition emptyStorage :: storage where
  "emptyStorage = \<lparr>item_wallets = Absent, item_mnemonics = Absent, item_paths = Absent\<rparr>"

text \<open>
  States reached from the initial one: Ethereum chosen and a first wallet generated;
  then a second and a third wallet added.
\<close>

definition oneWallet :: state where
  "oneWallet = snd (handleGenerateWallet sampleLibs samplePhrase (choosePathType ''60'' (initialState emptyStorage)))"

definition twoWallets :: state where
  "twoWallets = snd (handleAddWallet sampleLibs oneWallet)"

definition threeWallets :: state where
  "threeWallets = snd (handleAddWallet sampleLibs twoWallets)"

text \<open>Then the second of the three wallets is deleted, and a wallet is added again.\<close>

definition secondDeleted :: state where
  "secondDeleted = snd (handleDeleteWallet 1 threeWallets)"

definition addedAfterDelete :: state where
  "addedAfterDelete = snd (handleAddWallet sampleLibs secondDeleted)"

text \<open>
  A store whose \<^verbatim>\<open>"paths"\<close> item is not JSON, beside one saved wallet and its phrase; and
  a store that holds no wallet and a chain code that is neither of the two supported.
\<close>

definition brokenPaths :: storage where
  "brokenPaths =
     \<lparr>item_wallets = Json (wallets oneWallet), item_mnemonics = Json (mnemonicWords oneWallet),
      item_paths = Unparsable\<rparr>"

definition unknownChain :: storage where
  "unknownChain =
     \<lparr>item_wallets = Json [], item_mnemonics = Json [''old''], item_paths = Json [''1'']\<rparr>"

section \<open>Hexadecimal text, splitting and numbers\<close>

lemma digitValue_hexDigits_all: "\<forall>n\<in>set [0..<16]. digitValue (hexDigits ! n) = Some n"
  by code_simp

lemma digitValue_hexDigits: "n < 16 \<Longrightarrow> digitValue (hexDigits ! n) = Some n"
  using digitValue_hexDigits_all by simp

lemma bufferFromHex_toStringHex: "bufferFromHex (toStringHex buf) = buf"
proof (induction buf)
  case Nil
  show ?case by (simp add: toStringHex_def)
next
  case (Cons b buf)
  have hi: "unat b div 16 < 16"
    using unsigned_less [of b, where ?'a = nat] by (simp add: less_mult_imp_div_less)
  have lo: "unat b mod 16 < 16" by simp
  have "of_nat (16 * (unat b div 16) + unat b mod 16) = b"
    by simp
  with Cons hi lo show ?case
    by (simp add: toStringHex_def digitValue_hexDigits)
qed

lemma isDecimalDigit_char_of: "d < 10 \<Longrightarrow> isDecimalDigit (char_of (48 + d :: nat))"
  by (simp add: isDecimalDigit_def)

lemma digit_char: "d < 10 \<Longrightarrow> digitValue (char_of (48 + d :: nat)) = Some d"
  by (simp add: digitValue_def)

lemma showNat_digits: "c \<in> set (showNat n) \<Longrightarrow> isDecimalDigit c"
proof (induction n rule: showNat.induct)
  case (1 n)
  then show ?case
    by (subst (asm) showNat.simps) (auto split: if_splits simp: isDecimalDigit_char_of)
qed

lemma showNat_not_Nil: "showNat n \<noteq> []"
  by (subst showNat.simps) simp

lemma isDecimalDigit_isDigitIn: "isDecimalDigit c \<Longrightarrow> isDigitIn 10 c"
  by (auto simp: isDecimalDigit_def isDigitIn_def digitValue_def)

lemma isDecimalDigit_neq:
  assumes "isDecimalDigit c"
  shows "c \<noteq> CHR ''/''" "c \<noteq> CHR 0x27" "\<not> isWhiteSpace c" "c \<noteq> CHR ''-''" "c \<noteq> CHR ''+''"
    "c \<noteq> CHR ''x''" "c \<noteq> CHR ''X''"
  using assms by (auto simp: isDecimalDigit_def isWhiteSpace_def)

lemma parseInt_decimal:
  assumes "Z \<noteq> []" and "\<forall>c\<in>set Z. isDecimalDigit c"
  shows "parseInt Z = Some (digitsValue 10 Z)"
proof -
  obtain z zs where Z: "Z = z # zs" using assms(1) by (cases Z) auto
  have z: "isDecimalDigit z" using assms(2) Z by simp
  have dw: "dropWhile isWhiteSpace Z = Z"
    using z isDecimalDigit_neq(3) by (simp add: Z)
  have nohex: "take 2 Z \<noteq> ''0x''" "take 2 Z \<noteq> ''0X''"
    using assms(2) isDecimalDigit_neq(6,7) by (cases zs; auto simp: Z)+
  have tw: "takeWhile (isDigitIn 10) Z = Z"
    using assms(2) isDecimalDigit_isDigitIn by (simp add: takeWhile_eq_all_conv)
  have hdZ: "hd Z \<noteq> CHR ''-''" "hd Z \<noteq> CHR ''+''"
    using isDecimalDigit_neq(4,5)[OF z] by (simp_all add: Z)
  show ?thesis
    by (simp add: parseInt_def Let_def dw hdZ nohex tw assms(1))
qed

lemma digitsValue_showNat: "digitsValue 10 (showNat n) = int n"
proof (induction n rule: showNat.induct)
  case (1 n)
  show ?case
  proof (cases "n < 10")
    case True
    then show ?thesis by (subst showNat.simps) (simp add: digitsValue_def digit_char)
  next
    case False
    with 1 have IH: "digitsValue 10 (showNat (n div 10)) = int (n div 10)" by simp
    have "digitsValue 10 (showNat n) = 10 * digitsValue 10 (showNat (n div 10)) + int (n mod 10)"
      using False by (subst showNat.simps) (simp add: digitsValue_def digit_char)
    with IH show ?thesis by (simp add: zdiv_int zmod_int)
  qed
qed

lemma parseInt_showNat: "parseInt (showNat n) = Some (int n)"
  using parseInt_decimal [of "showNat n"] showNat_not_Nil showNat_digits
  by (simp add: digitsValue_showNat)

section \<open>The simplified derivation\<close>

lemma and_exp_eq_0:
  assumes "\<not> bit i k"
  shows "(of_nat i :: 'a::len word) AND 2 ^ k = 0"
  by (rule bit_eqI) (use assms in \<open>auto simp: bit_simps\<close>)

lemma hardened_word:
  assumes "i < 2 ^ 31"
  shows "(of_nat i :: 32 word) OR 0x80000000 = of_nat (i + 2 ^ 31)"
proof -
  have nb: "\<not> bit i 31"
    using assms by (simp add: bit_iff_odd)
  have "(of_nat i :: 32 word) + 2 ^ 31 = of_nat i OR 2 ^ 31"
    using and_exp_eq_0 [OF nb] by (rule disjunctive_add_eq_or)
  then show ?thesis by simp
qed

lemma ucast_drop_bit_of_nat:
  assumes "m < 2 ^ 32"
  shows "(ucast (drop_bit k (of_nat m :: 32 word)) :: 8 word) = of_int (int m div 2 ^ k)"
proof -
  have "unat (of_nat m :: 32 word) = m"
    using assms by (simp add: unat_of_nat)
  moreover have "unat (drop_bit k (of_nat m :: 32 word)) = drop_bit k (unat (of_nat m :: 32 word))"
    by (rule unat_drop_bit_eq)
  ultimately have "unat (drop_bit k (of_nat m :: 32 word)) = m div 2 ^ k"
    by (simp only: drop_bit_eq_div)
  moreover have "(ucast (drop_bit k (of_nat m :: 32 word)) :: 8 word)
      = of_nat (unat (drop_bit k (of_nat m :: 32 word)))"
    by simp
  ultimately have "(ucast (drop_bit k (of_nat m :: 32 word)) :: 8 word) = of_nat (m div 2 ^ k)"
    by (simp only:)
  also have "\<dots> = of_int (int (m div 2 ^ k))" by simp
  also have "int (m div 2 ^ k) = int m div 2 ^ k" by (simp add: zdiv_int)
  finally show ?thesis .
qed

lemma writeUInt32BE_hardened:
  assumes "i < 2 ^ 31"
  shows "writeUInt32BE (Some (int i + 0x80000000)) = Inr (hardenedIndexBytes i)"
proof -
  let ?m = "i + 2 ^ 31"
  have m: "?m < 2 ^ 32" using assms by simp
  have im: "int i + 0x80000000 = int ?m" by simp
  have rng: "\<not> (int ?m > 0xffffffff \<or> int ?m < 0)" using assms by simp
  have b: "(ucast (of_nat ?m :: 32 word) :: 8 word) = of_int (int ?m)"
    using ucast_drop_bit_of_nat [OF m, of 0] by simp
  show ?thesis
    unfolding im writeUInt32BE_def hardenedIndexBytes_def Let_def hardened_word [OF assms]
    using rng b ucast_drop_bit_of_nat [OF m]
    by (simp only: option.case if_False)
qed


lemma deriveSegment_hardened:
  assumes "i < 2 ^ 31"
  shows "deriveSegment H cur (showNat i @ [CHR 0x27]) = Inr (simplifiedStep H cur i)"
  by (simp add: deriveSegment_def endsWithApostrophe_def parseInt_showNat
      writeUInt32BE_hardened [OF assms] simplifiedStep_def)

lemma splitOn_not_Nil: "splitOn sep s \<noteq> []"
  by (induction s) (auto split: list.splits)

lemma splitOn_no_sep: "sep \<notin> set a \<Longrightarrow> splitOn sep a = [a]"
  by (induction a) auto

lemma splitOn_append: "sep \<notin> set a \<Longrightarrow> splitOn sep (a @ sep # r) = a # splitOn sep r"
  by (induction a) auto

lemma slash_notin_showNat: "CHR ''/'' \<notin> set (showNat n @ [CHR 0x27])"
  using showNat_digits isDecimalDigit_neq(1) by auto

lemma splitOn_showNat_last: "splitOn CHR ''/'' (showNat n @ [CHR 0x27]) = [showNat n @ [CHR 0x27]]"
  using slash_notin_showNat by (rule splitOn_no_sep)

lemma splitOn_showNat_inner:
  "splitOn CHR ''/'' (showNat n @ CHR 0x27 # CHR ''/'' # r) = (showNat n @ [CHR 0x27]) # splitOn CHR ''/'' r"
  using splitOn_append [OF slash_notin_showNat, of n r] by simp

lemma splitOn_hardenedPath:
  "splitOn CHR ''/'' (hardenedPath c a) =
     [''m'', showNat 44 @ [CHR 0x27], showNat c @ [CHR 0x27], showNat 0 @ [CHR 0x27], showNat a @ [CHR 0x27]]"
proof -
  have "showNat 44 = ''44''" "showNat 0 = ''0''"
    by code_simp+
  then show ?thesis
    by (simp add: hardenedPath_def splitOn_showNat_inner splitOn_showNat_last)
qed

text \<open>
  Claim C3. \<^verbatim>\<open>derivePath\<close> implements the simplified single-hash derivation: on the
  path \<^verbatim>\<open>m/44'/c'/0'/a'\<close>, with coin type and account index below \<open>2^31\<close> and written in
  decimal, and on the hexadecimal text of the seed, it returns what the reference
  derivation gives for the indices 44, \<open>c\<close>, 0, \<open>a\<close>, starting from the seed bytes.
\<close>

theorem derivePath_simplified:
  assumes "c < 2 ^ 31" and "a < 2 ^ 31"
  shows "derivePath H (hardenedPath c a) (toStringHex seed) = Inr (simplifiedDerivation H seed [44, c, 0, a])"
proof -
  have fixed: "(44::nat) < 2 ^ 31" "(0::nat) < 2 ^ 31" by simp_all
  show ?thesis
    by (simp add: derivePath_def splitOn_hardenedPath bufferFromHex_toStringHex
        deriveSegment_hardened [OF fixed(1)] deriveSegment_hardened [OF fixed(2)]
        deriveSegment_hardened [OF assms(1)] deriveSegment_hardened [OF assms(2)]
        simplifiedDerivation_def)
qed

text \<open>The path \<^verbatim>\<open>m/44'/60'/0'/0'\<close> of the first Ethereum wallet is such a path.\<close>

theorem derivePath_simplified_witness:
  "(60::nat) < 2 ^ 31 \<and> (0::nat) < 2 ^ 31 \<and>
   derivePath (nacl_hash sampleLibs) (hardenedPath 60 0)
       (toStringHex (mnemonicToSeedSync sampleLibs samplePhrase)) =
     Inr (simplifiedDerivation (nacl_hash sampleLibs)
           (mnemonicToSeedSync sampleLibs samplePhrase) [44, 60, 0, 0])"
proof -
  have c: "(60::nat) < 2 ^ 31" and a: "(0::nat) < 2 ^ 31" by simp_all
  show ?thesis
    using c a derivePath_simplified [OF c a] by simp
qed

section \<open>Segments without the hardened marker\<close>

lemma deriveSegments_unhardened:
  assumes "\<forall>segment\<in>set segments. \<not> endsWithApostrophe segment"
  shows "deriveSegments H cur segments = Inr cur"
  using assms by (induction segments) (simp_all add: deriveSegment_def)

text \<open>
  Claim C10. When no segment after the first carries the hardened marker,
  \<^verbatim>\<open>derivePath\<close> returns the seed it was given, byte for byte: every segment is
  skipped. For a 64-byte seed that is the 64-byte seed, not a 32-byte key.
\<close>

theorem derivePath_no_hardened_segment:
  assumes "\<forall>segment\<in>set (tl (splitOn CHR ''/'' p)). \<not> endsWithApostrophe segment"
  shows "derivePath H p (toStringHex seed) = Inr seed"
  using deriveSegments_unhardened [OF assms]
  by (simp add: derivePath_def bufferFromHex_toStringHex)

text \<open>The path \<^verbatim>\<open>m/44/60/0/0\<close> gives back a seed of 64 bytes.\<close>

theorem derivePath_no_hardened_segment_witness:
  "derivePath (nacl_hash sampleLibs) ''m/44/60/0/0'' (toStringHex (replicate 64 7)) = Inr (replicate 64 7) \<and>
   length (replicate 64 (7::byte)) = 64"
proof -
  have h: "\<forall>segment\<in>set (tl (splitOn CHR ''/'' ''m/44/60/0/0'')). \<not> endsWithApostrophe segment"
    by code_simp
  show ?thesis
    using derivePath_no_hardened_segment [OF h, of "nacl_hash sampleLibs" "replicate 64 7"]
    by simp
qed

section \<open>Malformed paths\<close>

lemma deriveSegment_Inl_iff: "(deriveSegment H cur segment = Inl RangeError) = outOfRange segment"
  by (auto simp: deriveSegment_def outOfRange_def writeUInt32BE_def split: option.splits)

lemma deriveSegment_cases:
  "deriveSegment H cur segment = Inl RangeError \<or> (\<exists>next. deriveSegment H cur segment = Inr next)"
  by (cases "deriveSegment H cur segment") (auto intro: error.exhaust)

lemma deriveSegments_Inl_iff:
  "(deriveSegments H cur segments = Inl RangeError) = (\<exists>segment\<in>set segments. outOfRange segment)"
proof (induction segments arbitrary: cur)
  case Nil
  show ?case by simp
next
  case (Cons segment rest)
  show ?case
  proof (cases "outOfRange segment")
    case True
    then have "deriveSegment H cur segment = Inl RangeError"
      by (simp add: deriveSegment_Inl_iff)
    with True show ?thesis by simp
  next
    case False
    then have "deriveSegment H cur segment \<noteq> Inl RangeError"
      by (simp add: deriveSegment_Inl_iff)
    then obtain n where "deriveSegment H cur segment = Inr n"
      using deriveSegment_cases [of H cur segment] by auto
    with False Cons.IH [of n] show ?thesis by simp
  qed
qed

text \<open>
  Claim C6 says that a path with a segment that is not a number, or that lacks the
  hardened marker, is refused. It is not: \<^verbatim>\<open>m/44/60/0/0\<close> gives back the seed, and
  \<^verbatim>\<open>m/x'\<close> derives with the index bytes all zero.
\<close>

theorem derivePath_malformed_counterexample:
  "derivePath id ''m/44/60/0/0'' ''0102'' = Inr [1, 2] \<and>
   derivePath id (''m/x'' @ [CHR 0x27]) ''0102'' = Inr [0, 1, 2, 0, 0, 0, 0]"
  by code_simp

text \<open>
  Claim C6, amended. \<^verbatim>\<open>derivePath\<close> has no check of the path. It fails exactly when
  some segment after the first is hardened and its number, with \<open>0x80000000\<close> added,
  does not fit four bytes (the \<^verbatim>\<open>RangeError\<close> of \<^verbatim>\<open>writeUInt32BE\<close>); every other path,
  malformed or not, yields key material.
\<close>

theorem derivePath_fails_only_out_of_range:
  "(derivePath H p seedHex = Inl RangeError) =
     (\<exists>segment\<in>set (tl (splitOn CHR ''/'' p)). outOfRange segment)"
  by (simp add: derivePath_def deriveSegments_Inl_iff)

text \<open>An account index of \<open>2^31\<close> fails; an unhardened and an unparsable segment do not.\<close>

theorem derivePath_fails_only_out_of_range_witness:
  "derivePath (nacl_hash sampleLibs) (''m/44'/60'/0'/2147483648'' @ [CHR 0x27]) ''0102'' = Inl RangeError \<and>
   derivePath (nacl_hash sampleLibs) (''m/44/x'' @ [CHR 0x27]) ''0102'' \<noteq> Inl RangeError"
proof -
  have a: "\<exists>segment\<in>set (tl (splitOn CHR ''/'' (''m/44'/60'/0'/2147483648'' @ [CHR 0x27]))). outOfRange segment"
    by code_simp
  have b: "\<not> (\<exists>segment\<in>set (tl (splitOn CHR ''/'' (''m/44/x'' @ [CHR 0x27]))). outOfRange segment)"
    by code_simp
  show ?thesis
    using a b derivePath_fails_only_out_of_range [of "nacl_hash sampleLibs" "''m/44'/60'/0'/2147483648'' @ [CHR 0x27]" "''0102''"]
      derivePath_fails_only_out_of_range [of "nacl_hash sampleLibs" "''m/44/x'' @ [CHR 0x27]" "''0102''"]
    by (simp only:) simp
qed

section \<open>Creating wallets\<close>

lemma generateWallet_Some:
  assumes "generateWalletFromMnemonic L pathType phrase n = (toasts, Some w)"
  shows "(pathType = Some ''501'' \<or> pathType = Some ''60'') \<and>
         path w = ''m/44'/'' @ templateText pathType @ [CHR 0x27] @ ''/0'/'' @ showNat n @ [CHR 0x27] \<and>
         mnemonic w = phrase"
  using assms
  by (auto simp: generateWalletFromMnemonic_def Let_def split: sum.splits option.splits if_splits)

lemma generateWallet_unsupported:
  assumes "pathType \<noteq> Some ''501''" and "pathType \<noteq> Some ''60''"
  shows "snd (generateWalletFromMnemonic L pathType phrase n) = None"
  using assms
  by (auto simp: generateWalletFromMnemonic_def Let_def split: sum.splits option.splits)

lemma accountIndex_of_path:
  assumes "pathType = Some ''501'' \<or> pathType = Some ''60''"
    and "path w = ''m/44'/'' @ templateText pathType @ [CHR 0x27] @ ''/0'/'' @ showNat n @ [CHR 0x27]"
  shows "accountIndex w = Some (int n)"
proof -
  have "splitOn CHR ''/'' (path w) =
          [''m'', ''44'' @ [CHR 0x27], templateText pathType @ [CHR 0x27], ''0'' @ [CHR 0x27], showNat n @ [CHR 0x27]]"
    using assms by (auto simp: templateText_def splitOn_showNat_last)
  then show ?thesis
    by (simp add: accountIndex_def endsWithApostrophe_def parseInt_showNat)
qed


lemma handleAddWallet_result:
  "snd (handleAddWallet L s) = s \<or>
   (\<exists>toasts w.
      generateWalletFromMnemonic L (first (pathTypes s)) (join (mnemonicWords s)) (length (wallets s))
        = (toasts, Some w) \<and>
      snd (handleAddWallet L s) =
        s\<lparr>wallets := wallets s @ [w],
          localStorage := (localStorage s)\<lparr>item_wallets := Json (wallets s @ [w])\<rparr>,
          visiblePrivateKeys := visiblePrivateKeys s @ [False]\<rparr>)"
  by (auto simp: handleAddWallet_def Let_def split: prod.splits option.splits)

lemma handleGenerateWallet_result:
  "snd (handleGenerateWallet L generated s) = s \<or>
   (\<exists>phrase. snd (handleGenerateWallet L generated s) = s\<lparr>mnemonicWords := splitOn CHR '' '' phrase\<rparr>) \<or>
   (\<exists>toasts w phrase.
      generateWalletFromMnemonic L (first (pathTypes s)) phrase (length (wallets s)) = (toasts, Some w) \<and>
      snd (handleGenerateWallet L generated s) =
        s\<lparr>mnemonicWords := splitOn CHR '' '' phrase,
          wallets := wallets s @ [w],
          localStorage := (localStorage s)\<lparr>item_wallets := Json (wallets s @ [w]),
                                            item_mnemonics := Json (splitOn CHR '' '' phrase),
                                            item_paths := Json (pathTypes s)\<rparr>,
          visiblePrivateKeys := visiblePrivateKeys s @ [False]\<rparr>)"
  unfolding handleGenerateWallet_def Let_def
  by (auto split: prod.splits option.splits)

lemma created_wallet:
  assumes "handleAddWallet L s = (toasts, s') \<or> handleGenerateWallet L generated s = (toasts, s')"
    and "wallets s' \<noteq> wallets s"
  shows "\<exists>ts w phrase.
           generateWalletFromMnemonic L (first (pathTypes s)) phrase (length (wallets s)) = (ts, Some w) \<and>
           wallets s' = wallets s @ [w]"
proof -
  from assms(1) show ?thesis
  proof
    assume "handleAddWallet L s = (toasts, s')"
    then have "snd (handleAddWallet L s) = s'" by simp
    with handleAddWallet_result [of L s] assms(2) obtain ts w where
      "generateWalletFromMnemonic L (first (pathTypes s)) (join (mnemonicWords s)) (length (wallets s))
         = (ts, Some w)"
      and "wallets s' = wallets s @ [w]" by auto
    then show ?thesis by blast
  next
    assume "handleGenerateWallet L generated s = (toasts, s')"
    then have "snd (handleGenerateWallet L generated s) = s'" by simp
    with handleGenerateWallet_result [of L generated s] assms(2) obtain ts w phrase where
      "generateWalletFromMnemonic L (first (pathTypes s)) phrase (length (wallets s)) = (ts, Some w)"
      and "wallets s' = wallets s @ [w]" by auto
    then show ?thesis by blast
  qed
qed

lemma indexedByPosition_below:
  assumes "indexedByPosition s" and "v \<in> set (wallets s)"
  shows "\<exists>k. accountIndex v = Some k \<and> k < int (length (wallets s))"
proof -
  from assms(2) obtain i where i: "i < length (wallets s)" "wallets s ! i = v"
    by (auto simp: in_set_conv_nth)
  have "map accountIndex (wallets s) ! i = map (\<lambda>k. Some (int k)) [0..<length (wallets s)] ! i"
    using assms(1) by (simp add: indexedByPosition_def)
  with i have "accountIndex v = Some (int i)" by simp
  with i show ?thesis by simp
qed

text \<open>
  Claim C1, amended. The account index in the path of a wallet that
  \<^verbatim>\<open>handleAddWallet\<close> or \<^verbatim>\<open>handleGenerateWallet\<close> creates is the number of wallets
  in the collection at that moment. As long as no wallet has been deleted (the wallet at
  position \<open>k\<close> carries index \<open>k\<close>) that index is greater than every index in the
  collection, and the new collection is again indexed by position.
\<close>

theorem new_wallet_index_is_wallet_count:
  assumes "handleAddWallet L s = (toasts, s') \<or> handleGenerateWallet L generated s = (toasts, s')"
    and "wallets s' \<noteq> wallets s"
  shows "\<exists>w. wallets s' = wallets s @ [w] \<and>
             accountIndex w = Some (int (length (wallets s))) \<and>
             (indexedByPosition s \<longrightarrow>
                indexedByPosition s' \<and>
                (\<forall>v\<in>set (wallets s). \<exists>k. accountIndex v = Some k \<and> k < int (length (wallets s))))"
proof -
  from created_wallet [OF assms] obtain ts w phrase where
    g: "generateWalletFromMnemonic L (first (pathTypes s)) phrase (length (wallets s)) = (ts, Some w)"
    and w: "wallets s' = wallets s @ [w]" by blast
  from generateWallet_Some [OF g] have idx: "accountIndex w = Some (int (length (wallets s)))"
    using accountIndex_of_path by blast
  have "indexedByPosition s'" if "indexedByPosition s"
    using that idx w by (simp add: indexedByPosition_def)
  with w idx indexedByPosition_below show ?thesis by blast
qed

text \<open>The third wallet, added to two, gets index 2.\<close>

theorem new_wallet_index_is_wallet_count_witness:
  "\<exists>w. wallets threeWallets = wallets twoWallets @ [w] \<and> accountIndex w = Some 2 \<and>
        indexedByPosition twoWallets \<and> indexedByPosition threeWallets"
proof -
  have run: "handleAddWallet sampleLibs twoWallets = (fst (handleAddWallet sampleLibs twoWallets), threeWallets)"
    by (simp add: threeWallets_def)
  have grown: "wallets threeWallets \<noteq> wallets twoWallets" by code_simp
  have two: "int (length (wallets twoWallets)) = 2" by code_simp
  have inv: "indexedByPosition twoWallets" by code_simp
  from new_wallet_index_is_wallet_count [OF disjI1 [OF run] grown] two inv
  show ?thesis by auto
qed

text \<open>
  Claim C1 says that an index is never used again after a deletion. It is: with the
  wallets of indices 0, 1, 2, deleting the second leaves two wallets, and the wallet
  added next gets index 2 once more; it is the very wallet that is already there.
\<close>

theorem account_index_reused_counterexample:
  "map accountIndex (wallets secondDeleted) = [Some 0, Some 2] \<and>
   map accountIndex (wallets addedAfterDelete) = [Some 0, Some 2, Some 2] \<and>
   wallets addedAfterDelete ! 2 = wallets addedAfterDelete ! 1"
  by code_simp

section \<open>Deleting a wallet\<close>

lemma enumerate_fst_ge: "p \<in> set (enumerate m xs) \<Longrightarrow> m \<le> fst p"
  by (auto simp: enumerate_eq_zip in_set_zip)

lemma filterIndex_enumerate:
  "map snd (filter (\<lambda>(j, x). j \<noteq> n + i) (enumerate n xs)) = take i xs @ drop (Suc i) xs"
proof (induction xs arbitrary: n i)
  case Nil
  show ?case by simp
next
  case (Cons x xs)
  show ?case
  proof (cases i)
    case 0
    have "filter (\<lambda>(j, x). j \<noteq> n) (enumerate (Suc n) xs) = enumerate (Suc n) xs"
      by (fastforce simp: filter_id_conv dest: enumerate_fst_ge)
    with 0 show ?thesis by simp
  next
    case (Suc k)
    with Cons.IH [of "Suc n" k] show ?thesis by simp
  qed
qed

lemma filterIndex_take_drop: "filterIndex i xs = take i xs @ drop (Suc i) xs"
  using filterIndex_enumerate [of 0 i xs] by (simp add: filterIndex_def)

lemma length_filterIndex:
  "length (filterIndex i xs) = (if i < length xs then length xs - 1 else length xs)"
  by (auto simp: filterIndex_take_drop)

lemma handleAddWallet_no_chain:
  assumes "pathTypes s = []"
  shows "snd (handleAddWallet L s) = s"
proof -
  have "snd (generateWalletFromMnemonic L (first (pathTypes s)) phrase n) = None" for phrase n
    using assms by (simp add: generateWallet_unsupported first_def)
  then have "generateWalletFromMnemonic L (first (pathTypes s)) phrase n \<noteq> (toasts, Some w)"
    for phrase n toasts w
    by (metis option.distinct(1) snd_conv)
  with handleAddWallet_result [of L s] show ?thesis by blast
qed

text \<open>
  Claim C4 says that deleting a wallet never resets the chosen chain. The handler filters
  \<^verbatim>\<open>pathTypes\<close>, which holds the one chosen chain, by the index of the wallet: deleting
  the wallet at index 0 empties it, in the state and in the store, and
  \<^verbatim>\<open>handleAddWallet\<close> then creates nothing; deleting at any other index keeps it.
\<close>

theorem delete_first_wallet_resets_chain:
  assumes "pathTypes s = [code]"
  shows "pathTypes (snd (handleDeleteWallet 0 s)) = [] \<and>
         item_paths (localStorage (snd (handleDeleteWallet 0 s))) = Json [] \<and>
         snd (handleAddWallet L (snd (handleDeleteWallet 0 s))) = snd (handleDeleteWallet 0 s) \<and>
         (0 < i \<longrightarrow> pathTypes (snd (handleDeleteWallet i s)) = [code])"
proof -
  have gone: "pathTypes (snd (handleDeleteWallet 0 s)) = []"
    using assms by (simp add: handleDeleteWallet_def Let_def filterIndex_take_drop)
  have stored: "item_paths (localStorage (snd (handleDeleteWallet 0 s))) = Json []"
    using assms by (simp add: handleDeleteWallet_def Let_def filterIndex_take_drop)
  have kept: "pathTypes (snd (handleDeleteWallet i s)) = [code]" if "0 < i"
    using assms that by (simp add: handleDeleteWallet_def Let_def filterIndex_take_drop)
  from gone stored kept handleAddWallet_no_chain [OF gone] show ?thesis by simp
qed

text \<open>
  With two Ethereum wallets, deleting the first leaves one wallet and no chain, and
  adding a wallet is refused as an unsupported blockchain.
\<close>

theorem delete_first_wallet_resets_chain_witness:
  "pathTypes twoWallets = [''60''] \<and>
   length (wallets (snd (handleDeleteWallet 0 twoWallets))) = 1 \<and>
   pathTypes (snd (handleDeleteWallet 0 twoWallets)) = [] \<and>
   snd (handleAddWallet sampleLibs (snd (handleDeleteWallet 0 twoWallets))) = snd (handleDeleteWallet 0 twoWallets) \<and>
   fst (handleAddWallet sampleLibs (snd (handleDeleteWallet 0 twoWallets))) = [ToastError ''Unsupported blockchain type'']"
proof -
  have chain: "pathTypes twoWallets = [''60'']" by code_simp
  have rest: "length (wallets (snd (handleDeleteWallet 0 twoWallets))) = 1" by code_simp
  have told: "fst (handleAddWallet sampleLibs (snd (handleDeleteWallet 0 twoWallets))) = [ToastError ''Unsupported blockchain type'']"
    by code_simp
  from delete_first_wallet_resets_chain [OF chain, of sampleLibs 1] chain rest told
  show ?thesis by simp
qed

section \<open>Failure while generating\<close>

text \<open>
  Claim C5 says that a failed derivation leaves the whole state as it was.
  \<^verbatim>\<open>handleGenerateWallet\<close> sets \<^verbatim>\<open>mnemonicWords\<close> before it derives: when the phrase
  is accepted and the derivation gives no wallet, the state afterwards is the state
  before with the words of the phrase in place of the former ones; the wallets, the
  flags and the store are as before.
\<close>

theorem failed_generation_replaces_mnemonic_words:
  assumes "trim (mnemonicInput s) = [] \<or> validateMnemonic L (trim (mnemonicInput s))"
    and "phrase = (if trim (mnemonicInput s) \<noteq> [] then trim (mnemonicInput s) else generated)"
    and "snd (generateWalletFromMnemonic L (first (pathTypes s)) phrase (length (wallets s))) = None"
  shows "snd (handleGenerateWallet L generated s) = s\<lparr>mnemonicWords := splitOn CHR '' '' phrase\<rparr>"
  using assms
  by (auto simp: handleGenerateWallet_def Let_def split: prod.splits option.splits)

lemma failed_addition_changes_nothing:
  assumes "snd (generateWalletFromMnemonic L (first (pathTypes s)) (join (mnemonicWords s))
                  (length (wallets s))) = None"
  shows "snd (handleAddWallet L s) = s"
  using assms
  by (auto simp: handleAddWallet_def Let_def split: prod.splits option.splits)

text \<open>
  A store with no wallet, the phrase \<^verbatim>\<open>old\<close> and the chain code \<^verbatim>\<open>1\<close> is loaded; generating
  with an empty input fails on the chain code, and the twelve generated words have
  replaced \<^verbatim>\<open>old\<close> in the state while the store still holds \<^verbatim>\<open>old\<close>.
\<close>

theorem failed_generation_replaces_mnemonic_words_witness:
  "mnemonicWords (snd (loadSavedWallets (initialState unknownChain))) = [''old''] \<and>
   mnemonicWords (snd (handleGenerateWallet sampleLibs samplePhrase (snd (loadSavedWallets (initialState unknownChain)))))
     = splitOn CHR '' '' samplePhrase \<and>
   wallets (snd (handleGenerateWallet sampleLibs samplePhrase (snd (loadSavedWallets (initialState unknownChain))))) = [] \<and>
   item_mnemonics (localStorage (snd (handleGenerateWallet sampleLibs samplePhrase (snd (loadSavedWallets (initialState unknownChain))))))
     = Json [''old'']"
proof -
  let ?s = "snd (loadSavedWallets (initialState unknownChain))"
  have blank: "trim (mnemonicInput ?s) = [] \<or> validateMnemonic sampleLibs (trim (mnemonicInput ?s))"
    by code_simp
  have phrase: "samplePhrase = (if trim (mnemonicInput ?s) \<noteq> [] then trim (mnemonicInput ?s) else samplePhrase)"
    by code_simp
  have failed: "snd (generateWalletFromMnemonic sampleLibs (first (pathTypes ?s)) samplePhrase (length (wallets ?s))) = None"
    by code_simp
  have before: "mnemonicWords ?s = [''old''] \<and> wallets ?s = [] \<and> item_mnemonics (localStorage ?s) = Json [''old'']"
    by code_simp
  from failed_generation_replaces_mnemonic_words [OF blank phrase failed] before
  show ?thesis by simp
qed

text \<open>
  Claim C7. When the phrase typed in, trimmed, is not empty and
  \<^verbatim>\<open>validateMnemonic\<close> rejects it, \<^verbatim>\<open>handleGenerateWallet\<close> reports an invalid
  recovery phrase and returns the state as it was: no derivation, no wallet, nothing
  stored.
\<close>

theorem invalid_phrase_rejected:
  assumes "trim (mnemonicInput s) \<noteq> []" and "\<not> validateMnemonic L (trim (mnemonicInput s))"
  shows "handleGenerateWallet L generated s = ([ToastError ''Invalid recovery phrase''], s)"
  using assms by (simp add: handleGenerateWallet_def)

text \<open>A phrase of three words is rejected.\<close>

theorem invalid_phrase_rejected_witness:
  "handleGenerateWallet sampleLibs samplePhrase
     (setMnemonicInput ''abandon abandon abandon'' (choosePathType ''60'' (initialState emptyStorage)))
   = ([ToastError ''Invalid recovery phrase''],
      setMnemonicInput ''abandon abandon abandon'' (choosePathType ''60'' (initialState emptyStorage)))"
proof -
  let ?s = "setMnemonicInput ''abandon abandon abandon'' (choosePathType ''60'' (initialState emptyStorage))"
  have typed: "trim (mnemonicInput ?s) \<noteq> []" by code_simp
  have invalid: "\<not> validateMnemonic sampleLibs (trim (mnemonicInput ?s))" by code_simp
  from invalid_phrase_rejected [OF typed invalid] show ?thesis .
qed

section \<open>Clearing, and loading the saved wallets\<close>

lemma handleGenerateWallet_no_chain:
  assumes "pathTypes s = []"
  shows "wallets (snd (handleGenerateWallet L generated s)) = wallets s"
proof -
  have "snd (generateWalletFromMnemonic L (first (pathTypes s)) phrase n) = None" for phrase n
    using assms by (simp add: generateWallet_unsupported first_def)
  then have "generateWalletFromMnemonic L (first (pathTypes s)) phrase n \<noteq> (toasts, Some w)"
    for phrase n toasts w
    by (metis option.distinct(1) snd_conv)
  with handleGenerateWallet_result [of L generated s] show ?thesis by auto
qed

text \<open>
  Claim C8. After \<^verbatim>\<open>handleClearWallets\<close> the collection, the mnemonic words, the chosen
  chain and the flags are empty and the three items are removed from the store; until
  a chain is chosen again neither \<^verbatim>\<open>handleAddWallet\<close> nor \<^verbatim>\<open>handleGenerateWallet\<close>
  creates a wallet.
\<close>

theorem clear_all:
  "fst (handleClearWallets s) = [ToastInfo ''All wallets cleared''] \<and>
   wallets (snd (handleClearWallets s)) = [] \<and>
   mnemonicWords (snd (handleClearWallets s)) = [] \<and>
   pathTypes (snd (handleClearWallets s)) = [] \<and>
   visiblePrivateKeys (snd (handleClearWallets s)) = [] \<and>
   item_wallets (localStorage (snd (handleClearWallets s))) = Absent \<and>
   item_mnemonics (localStorage (snd (handleClearWallets s))) = Absent \<and>
   item_paths (localStorage (snd (handleClearWallets s))) = Absent \<and>
   snd (handleAddWallet L (snd (handleClearWallets s))) = snd (handleClearWallets s) \<and>
   wallets (snd (handleGenerateWallet L generated (snd (handleClearWallets s)))) = []"
proof -
  have fields:
    "fst (handleClearWallets s) = [ToastInfo ''All wallets cleared'']"
    "wallets (snd (handleClearWallets s)) = []"
    "mnemonicWords (snd (handleClearWallets s)) = []"
    "pathTypes (snd (handleClearWallets s)) = []"
    "visiblePrivateKeys (snd (handleClearWallets s)) = []"
    "item_wallets (localStorage (snd (handleClearWallets s))) = Absent"
    "item_mnemonics (localStorage (snd (handleClearWallets s))) = Absent"
    "item_paths (localStorage (snd (handleClearWallets s))) = Absent"
    by (simp_all add: handleClearWallets_def)
  from fields handleAddWallet_no_chain [OF fields(4)] handleGenerateWallet_no_chain [OF fields(4)]
  show ?thesis by simp
qed

text \<open>Clearing the three wallets.\<close>

theorem clear_all_witness:
  "length (wallets threeWallets) = 3 \<and>
   wallets (snd (handleClearWallets threeWallets)) = [] \<and>
   mnemonicWords (snd (handleClearWallets threeWallets)) = [] \<and>
   pathTypes (snd (handleClearWallets threeWallets)) = [] \<and>
   localStorage (snd (handleClearWallets threeWallets)) = emptyStorage \<and>
   wallets (snd (handleGenerateWallet sampleLibs samplePhrase (snd (handleClearWallets threeWallets)))) = []"
proof -
  have three: "length (wallets threeWallets) = 3" by code_simp
  have "localStorage (snd (handleClearWallets threeWallets)) = emptyStorage"
    using clear_all [of threeWallets sampleLibs samplePhrase]
    by (cases "localStorage (snd (handleClearWallets threeWallets))") (simp add: emptyStorage_def)
  with three clear_all [of threeWallets sampleLibs samplePhrase] show ?thesis by simp
qed

text \<open>
  Claim C9 says that every operation keeps one visibility flag per wallet. Loading
  calls the setters one after the other inside the \<^verbatim>\<open>try\<close>: when the \<^verbatim>\<open>"wallets"\<close> and
  \<^verbatim>\<open>"mnemonics"\<close> items parse and the \<^verbatim>\<open>"paths"\<close> item does not, the wallets are set and
  the flags are not.
\<close>

theorem load_with_unparsable_paths:
  assumes "item_wallets stored = Json saved" and "item_mnemonics stored = Json ws"
    and "item_paths stored = Unparsable"
  shows "loadSavedWallets (initialState stored) =
           ([ToastError ''Failed to load saved wallets''],
            (initialState stored)\<lparr>mnemonicWords := ws, wallets := saved\<rparr>) \<and>
         length (wallets (snd (loadSavedWallets (initialState stored)))) = length saved \<and>
         length (visiblePrivateKeys (snd (loadSavedWallets (initialState stored)))) = 0"
  using assms by (simp add: loadSavedWallets_def initialState_def)

text \<open>One saved wallet beside a \<^verbatim>\<open>"paths"\<close> item that is not JSON: one wallet, no flag.\<close>

theorem load_with_unparsable_paths_witness:
  "length (wallets (snd (loadSavedWallets (initialState brokenPaths)))) = 1 \<and>
   length (visiblePrivateKeys (snd (loadSavedWallets (initialState brokenPaths)))) = 0 \<and>
   \<not> flagsMatch (snd (loadSavedWallets (initialState brokenPaths)))"
proof -
  have a: "item_wallets brokenPaths = Json (wallets oneWallet)"
    and b: "item_mnemonics brokenPaths = Json (mnemonicWords oneWallet)"
    and c: "item_paths brokenPaths = Unparsable"
    by (simp_all add: brokenPaths_def)
  have one: "length (wallets oneWallet) = 1" by code_simp
  from load_with_unparsable_paths [OF a b c, THEN conjunct2] one show ?thesis
    by (simp add: flagsMatch_def)
qed

text \<open>
  The initial state has one flag per wallet, every other operation keeps it so, and so
  does loading whenever the \<^verbatim>\<open>"paths"\<close> item is absent or parses.
\<close>

lemma flagsMatch_initial: "flagsMatch (initialState stored)"
  by (simp add: flagsMatch_def initialState_def)

lemma flagsMatch_other_operations:
  assumes "flagsMatch s"
  shows "flagsMatch (snd (handleGenerateWallet L generated s))"
    and "flagsMatch (snd (handleAddWallet L s))"
    and "flagsMatch (snd (handleDeleteWallet i s))"
    and "flagsMatch (snd (handleClearWallets s))"
    and "flagsMatch (togglePrivateKeyVisibility i s)"
    and "flagsMatch (choosePathType code s)"
    and "flagsMatch (setMnemonicInput text s)"
proof -
  show "flagsMatch (snd (handleGenerateWallet L generated s))"
    using assms handleGenerateWallet_result [of L generated s] by (auto simp: flagsMatch_def)
  show "flagsMatch (snd (handleAddWallet L s))"
    using assms handleAddWallet_result [of L s] by (auto simp: flagsMatch_def)
  show "flagsMatch (snd (handleDeleteWallet i s))"
    using assms by (simp add: flagsMatch_def handleDeleteWallet_def Let_def length_filterIndex)
  show "flagsMatch (snd (handleClearWallets s))"
    by (simp add: flagsMatch_def handleClearWallets_def)
  show "flagsMatch (togglePrivateKeyVisibility i s)"
    using assms by (simp add: flagsMatch_def togglePrivateKeyVisibility_def)
  show "flagsMatch (choosePathType code s)"
    using assms by (simp add: flagsMatch_def choosePathType_def)
  show "flagsMatch (setMnemonicInput text s)"
    using assms by (simp add: flagsMatch_def setMnemonicInput_def)
qed

lemma flagsMatch_load:
  assumes "flagsMatch s" and "item_paths (localStorage s) \<noteq> Unparsable"
  shows "flagsMatch (snd (loadSavedWallets s))"
proof (cases "item_paths (localStorage s)")
  case Absent
  then show ?thesis using assms(1) by (simp add: loadSavedWallets_def)
next
  case Unparsable
  with assms(2) show ?thesis by simp
next
  case (Json pts)
  then show ?thesis
    using assms(1)
    by (auto simp: loadSavedWallets_def flagsMatch_def Let_def split: option.splits)
qed

end
